theory Spec2Isabelle
  imports Main
begin

section \<open>Data model\<close>

text \<open>
  Python \<open>str\<close> and \<open>bytes\<close> values are character lists. Host names and the
  messages of the program are ASCII; \<open>lower\<close> below is \<open>str.lower\<close> on ASCII.
\<close>

type_synonym bytes = "char list"

text \<open>
  An aware UTC \<open>datetime\<close> is the number of microseconds since the epoch (the
  resolution of Python's \<open>datetime\<close>); a \<open>timedelta\<close> is a number of microseconds.
\<close>

type_synonym datetime = int

definition microseconds_per_day :: int where
  "microseconds_per_day = 86400000000"

definition timedelta_days :: "int \<Rightarrow> int" where
  \<comment> \<open>\<open>timedelta.days\<close>: a timedelta is normalised with \<open>0 \<le> seconds < 86400\<close> and
      \<open>0 \<le> microseconds < 10^6\<close>, so \<open>days\<close> is the floor of the quotient.\<close>
  "timedelta_days td = td div microseconds_per_day"

text \<open>The exceptions that the modelled code raises or catches.\<close>

datatype py_exception =
    InvalidSignature
  | SocketTimeout
  | GaiError string
  | SocketError string
  | SSLError string
  | OtherException string

text \<open>\<open>x509.Name\<close>: the attributes of a distinguished name, in order.\<close>

datatype name_oid = COMMON_NAME | OTHER_OID string

type_synonym name = "(name_oid \<times> string) list"

record basic_constraints_ext =
  ca :: bool
  path_length :: "nat option"

record key_usage_ext =
  digital_signature :: bool
  key_encipherment :: bool
  key_cert_sign :: bool
  crl_sign :: bool

datatype hash_algorithm = SHA1 | SHA256 | SHA384 | SHA512 | OtherHash string

text \<open>
  The public key of a certificate, by the class of the \<open>cryptography\<close> library
  that \<open>isinstance\<close> tests; \<open>OtherPublicKey\<close> is any other key class.
\<close>

datatype public_key =
    RSAPublicKey bytes
  | EllipticCurvePublicKey bytes
  | DSAPublicKey bytes
  | OtherPublicKey string

text \<open>
  \<open>x509.Certificate\<close>, with the accessors the checker reads. An extension that is
  absent (\<open>ExtensionNotFound\<close>) is \<open>None\<close>; \<open>public_key()\<close> may raise.
\<close>

record certificate =
  subject :: name
  issuer :: name
  not_valid_before_utc :: datetime
  not_valid_after_utc :: datetime
  subject_alternative_name :: "string list option"
  basic_constraints :: "basic_constraints_ext option"
  key_usage :: "key_usage_ext option"
  public_key :: "py_exception + public_key"
  signature :: bytes
  tbs_certificate_bytes :: bytes
  signature_hash_algorithm :: "hash_algorithm option"

section \<open>Decimal rendering of integers in messages\<close>

fun str_of_nat :: "nat \<Rightarrow> string" where
  "str_of_nat n =
     (if n < 10 then [char_of (48 + n)]
      else str_of_nat (n div 10) @ [char_of (48 + n mod 10)])"

declare str_of_nat.simps [simp del]

definition str_of_int :: "int \<Rightarrow> string" where
  "str_of_int i = (if i < 0 then CHR ''-'' # str_of_nat (nat (- i)) else str_of_nat (nat i))"

section \<open>cert\_parser.py\<close>

definition get_attributes_for_oid :: "name \<Rightarrow> name_oid \<Rightarrow> string list" where
  "get_attributes_for_oid n oid = map snd (filter (\<lambda>a. fst a = oid) n)"

definition get_subject_cn :: "certificate \<Rightarrow> string option" where
  "get_subject_cn cert =
     (case get_attributes_for_oid (subject cert) COMMON_NAME of
        [] \<Rightarrow> None
      | v # _ \<Rightarrow> Some v)"

definition get_san :: "certificate \<Rightarrow> string list" where
  "get_san cert =
     (case subject_alternative_name cert of
        None \<Rightarrow> []
      | Some san_list \<Rightarrow> san_list)"

definition get_validity_period :: "certificate \<Rightarrow> datetime \<times> datetime" where
  "get_validity_period cert = (not_valid_before_utc cert, not_valid_after_utc cert)"

section \<open>remote.py\<close>

datatype CertificateStatus = VALID | WARNING | EXPIRED | ERROR

record ExpirationInfo =
  not_before :: datetime
  not_after :: datetime
  days_remaining :: int
  is_expired :: bool
  is_warning :: bool
  status :: CertificateStatus

text \<open>
  \<open>HostCheckResult\<close>; its fields \<open>status\<close> and \<open>certificate\<close> are \<open>hc_status\<close> and
  \<open>hc_certificate\<close> here, the plain names being taken by \<open>ExpirationInfo\<close> and by
  the certificate type.
\<close>

record HostCheckResult =
  host_name :: string
  fqdn :: string
  port :: int
  hc_status :: CertificateStatus
  hc_certificate :: "certificate option"
  certificate_chain :: "certificate list option"
  expiration :: "ExpirationInfo option"
  hostname_valid :: "bool option"
  error :: "string option"

text \<open>\<open>RemoteCertChecker\<close>: the object holds the default timeout.\<close>

record RemoteCertChecker =
  self_timeout :: int

text \<open>
  What the checker reads from outside the program: the outcome of connecting to
  \<open>(fqdn, port)\<close> within a timeout and asking the TLS socket for the peer certificate
  (\<open>getpeercert(binary_form=True)\<close>, which is \<open>None\<close> or DER bytes, or an exception of
  the socket and ssl layers), the library's DER parser, and the clock.
\<close>

record world =
  w_getpeercert :: "string \<Rightarrow> int \<Rightarrow> int \<Rightarrow> py_exception + bytes option"
  w_parse_der :: "bytes \<Rightarrow> py_exception + certificate"
  w_now :: datetime

definition timeout_or :: "int option \<Rightarrow> int \<Rightarrow> int" where
  \<comment> \<open>\<open>timeout or self.timeout\<close>: \<open>None\<close> and \<open>0\<close> are falsy.\<close>
  "timeout_or t d = (case t of None \<Rightarrow> d | Some v \<Rightarrow> if v = 0 then d else v)"

definition get_certificate_chain ::
  "RemoteCertChecker \<Rightarrow> world \<Rightarrow> string \<Rightarrow> int \<Rightarrow> int option \<Rightarrow> py_exception + certificate list" where
  "get_certificate_chain self w fq prt tmo =
     (case w_getpeercert w fq prt (timeout_or tmo (self_timeout self)) of
        Inl e \<Rightarrow> Inl e
      | Inr der_cert_chain \<Rightarrow>
          (case der_cert_chain of
             None \<Rightarrow> Inr []
           | Some der \<Rightarrow>
               if der \<noteq> [] then
                 (case w_parse_der w der of Inl e \<Rightarrow> Inl e | Inr cert \<Rightarrow> Inr [cert])
               else Inr []))"

subsection \<open>check\_expiration\<close>

text \<open>
  \<open>datetime.now(timezone.utc)\<close> is read from the clock; the model takes the instant
  as the argument \<open>now\<close>.
\<close>

definition check_expiration :: "certificate \<Rightarrow> int \<Rightarrow> datetime \<Rightarrow> ExpirationInfo" where
  "check_expiration cert warning_days now =
     (let (nb, na) = get_validity_period cert;
          dr = timedelta_days (na - now);
          expired = (now > na);
          warning = (\<not> expired \<and> dr < warning_days);
          st = (if expired then EXPIRED else if warning then WARNING else VALID)
      in \<lparr> not_before = nb, not_after = na, days_remaining = dr,
           is_expired = expired, is_warning = warning, status = st \<rparr>)"

subsection \<open>\_match\_hostname and verify\_hostname\<close>

definition lower_char :: "char \<Rightarrow> char" where
  "lower_char c =
     (let n = (of_char c :: nat) in if 65 \<le> n \<and> n \<le> 90 then char_of (n + 32) else c)"

definition lower :: "string \<Rightarrow> string" where
  "lower s = map lower_char s"

fun str_split :: "char \<Rightarrow> string \<Rightarrow> string list" where
  \<comment> \<open>\<open>s.split(sep)\<close> for a one-character separator: never the empty list.\<close>
  "str_split sep [] = [[]]"
| "str_split sep (c # cs) =
     (if c = sep then [] # str_split sep cs
      else (case str_split sep cs of [] \<Rightarrow> [[c]] | p # ps \<Rightarrow> (c # p) # ps))"

definition startswith :: "string \<Rightarrow> string \<Rightarrow> bool" where
  "startswith s pre = (take (length pre) s = pre)"

fun parts_loop :: "(string \<times> string) list \<Rightarrow> bool" where
  \<comment> \<open>the loop over \<open>zip(pattern_parts[1:], hostname_parts[1:])\<close>\<close>
  "parts_loop [] = True"
| "parts_loop ((p, h) # rest) = (if p \<noteq> h then False else parts_loop rest)"

definition match_hostname :: "string \<Rightarrow> string \<Rightarrow> bool" where
  "match_hostname pattern0 hostname0 =
     (let pattern = lower pattern0;
          hostname = lower hostname0
      in if pattern = hostname then True
         else if startswith pattern ''*.'' then
           (let pattern_parts = str_split CHR ''.'' pattern;
                hostname_parts = str_split CHR ''.'' hostname
            in if length pattern_parts \<noteq> length hostname_parts then False
               else parts_loop (zip (drop 1 pattern_parts) (drop 1 hostname_parts)))
         else False)"

fun san_loop :: "string list \<Rightarrow> string \<Rightarrow> bool" where
  "san_loop [] fq = False"
| "san_loop (san # rest) fq = (if match_hostname san fq then True else san_loop rest fq)"

definition verify_hostname :: "certificate \<Rightarrow> string \<Rightarrow> bool" where
  "verify_hostname cert fq =
     (if (case get_subject_cn cert of
            None \<Rightarrow> False
          | Some cn \<Rightarrow> cn \<noteq> [] \<and> match_hostname cn fq)
      then True
      else san_loop (get_san cert) fq)"

subsection \<open>check\_host\<close>

definition error_result :: "string \<Rightarrow> string \<Rightarrow> int \<Rightarrow> string \<Rightarrow> HostCheckResult" where
  \<comment> \<open>\<open>HostCheckResult(host_name, fqdn, port, status=ERROR, error=msg)\<close>, the other
      fields at their default \<open>None\<close>\<close>
  "error_result hn fq prt msg =
     \<lparr> host_name = hn, fqdn = fq, port = prt, hc_status = ERROR,
       hc_certificate = None, certificate_chain = None, expiration = None,
       hostname_valid = None, error = Some msg \<rparr>"

definition check_host_try ::
  "RemoteCertChecker \<Rightarrow> world \<Rightarrow> string \<Rightarrow> int \<Rightarrow> int \<Rightarrow> string \<Rightarrow> int option
     \<Rightarrow> py_exception + HostCheckResult" where
  \<comment> \<open>the body of the \<open>try\<close> block: \<open>Inl\<close> is an exception leaving it\<close>
  "check_host_try self w fq prt warning_days hn tmo =
     (case get_certificate_chain self w fq prt tmo of
        Inl e \<Rightarrow> Inl e
      | Inr cert_chain \<Rightarrow>
          (case cert_chain of
             [] \<Rightarrow> Inr (error_result hn fq prt ''No certificate received'')
           | cert # _ \<Rightarrow>
               (let expi = check_expiration cert warning_days (w_now w);
                    hv = verify_hostname cert fq;
                    st = (if \<not> hv then ERROR else status expi)
                in Inr \<lparr> host_name = hn, fqdn = fq, port = prt, hc_status = st,
                         hc_certificate = Some cert, certificate_chain = Some cert_chain,
                         expiration = Some expi, hostname_valid = Some hv,
                         error = None \<rparr>)))"

definition str_of_exception :: "py_exception \<Rightarrow> string" where
  \<comment> \<open>\<open>str(e)\<close>: the message the exception carries\<close>
  "str_of_exception e =
     (case e of
        InvalidSignature \<Rightarrow> []
      | SocketTimeout \<Rightarrow> ''timed out''
      | GaiError m \<Rightarrow> m
      | SocketError m \<Rightarrow> m
      | SSLError m \<Rightarrow> m
      | OtherException m \<Rightarrow> m)"

definition check_host ::
  "RemoteCertChecker \<Rightarrow> world \<Rightarrow> string \<Rightarrow> int \<Rightarrow> int \<Rightarrow> string option \<Rightarrow> int option
     \<Rightarrow> HostCheckResult" where
  "check_host self w fq prt warning_days host_name_arg tmo =
     (let hn = (case host_name_arg of None \<Rightarrow> fq | Some s \<Rightarrow> if s = [] then fq else s)
      in case check_host_try self w fq prt warning_days hn tmo of
           Inr r \<Rightarrow> r
         | Inl SocketTimeout \<Rightarrow>
             error_result hn fq prt
               (''Connection timeout after '' @ str_of_int (timeout_or tmo (self_timeout self)) @ ''s'')
         | Inl (GaiError m) \<Rightarrow>
             error_result hn fq prt (''DNS resolution failed: '' @ str_of_exception (GaiError m))
         | Inl (SocketError m) \<Rightarrow>
             error_result hn fq prt (''Connection error: '' @ str_of_exception (SocketError m))
         | Inl (SSLError m) \<Rightarrow>
             error_result hn fq prt (''Connection error: '' @ str_of_exception (SSLError m))
         | Inl e \<Rightarrow>
             error_result hn fq prt (''Unexpected error: '' @ str_of_exception e))"

section \<open>validator.py\<close>

text \<open>
  \<open>ValidationStatus\<close>; the constructors carry the prefix \<open>V_\<close>, the plain names
  being those of \<open>CertificateStatus\<close>. The field \<open>status\<close> of \<open>ValidationResult\<close>
  is \<open>v_status\<close>.
\<close>

datatype ValidationStatus = V_VALID | V_INVALID | V_WARNING

record ValidationResult =
  v_status :: ValidationStatus
  messages :: "string list"
  is_valid :: bool

text \<open>
  The verification primitives of the \<open>cryptography\<close> library, one per key class, as
  the validator calls them: \<open>public_key.verify(signature, data, ...)\<close> returns
  normally (\<open>None\<close>) or raises (\<open>Some e\<close>; \<open>InvalidSignature\<close> when the signature
  does not verify).
\<close>

datatype padding = PKCS1v15 | PSS

datatype ec_signature_algorithm = ECDSA "hash_algorithm option"

record crypto =
  rsa_verify ::
    "bytes \<Rightarrow> bytes \<Rightarrow> bytes \<Rightarrow> padding \<Rightarrow> hash_algorithm option \<Rightarrow> py_exception option"
  ec_verify ::
    "bytes \<Rightarrow> bytes \<Rightarrow> bytes \<Rightarrow> ec_signature_algorithm \<Rightarrow> py_exception option"
  dsa_verify ::
    "bytes \<Rightarrow> bytes \<Rightarrow> bytes \<Rightarrow> hash_algorithm option \<Rightarrow> py_exception option"

subsection \<open>verify\_signature\<close>

definition verify_signature_try :: "crypto \<Rightarrow> certificate \<Rightarrow> certificate \<Rightarrow> py_exception + bool" where
  \<comment> \<open>the body of the \<open>try\<close> block: \<open>Inl\<close> is an exception leaving it. The read of
      \<open>cert.signature_algorithm_oid._name\<close> into an unused variable is left out.\<close>
  "verify_signature_try cr cert issuer_cert =
     (case public_key issuer_cert of
        Inl e \<Rightarrow> Inl e
      | Inr (RSAPublicKey k) \<Rightarrow>
          (case rsa_verify cr k (signature cert) (tbs_certificate_bytes cert) PKCS1v15
                  (signature_hash_algorithm cert) of
             Some e \<Rightarrow> Inl e
           | None \<Rightarrow> Inr True)
      | Inr (EllipticCurvePublicKey k) \<Rightarrow>
          (case ec_verify cr k (signature cert) (tbs_certificate_bytes cert)
                  (ECDSA (signature_hash_algorithm cert)) of
             Some e \<Rightarrow> Inl e
           | None \<Rightarrow> Inr True)
      | Inr (DSAPublicKey k) \<Rightarrow>
          (case dsa_verify cr k (signature cert) (tbs_certificate_bytes cert)
                  (signature_hash_algorithm cert) of
             Some e \<Rightarrow> Inl e
           | None \<Rightarrow> Inr True)
      | Inr (OtherPublicKey _) \<Rightarrow> Inr False)"

definition verify_signature :: "crypto \<Rightarrow> certificate \<Rightarrow> certificate \<Rightarrow> bool" where
  "verify_signature cr cert issuer_cert =
     (case verify_signature_try cr cert issuer_cert of
        Inr b \<Rightarrow> b
      | Inl InvalidSignature \<Rightarrow> False
      | Inl _ \<Rightarrow> False)"

subsection \<open>check\_key\_usage and check\_basic\_constraints\<close>

definition check_key_usage :: "certificate \<Rightarrow> ValidationResult" where
  "check_key_usage cert =
     (case key_usage cert of
        None \<Rightarrow>
          \<lparr> v_status = V_WARNING, messages = [''Key usage extension not found''],
            is_valid = True \<rparr>
      | Some ku \<Rightarrow>
          (case basic_constraints cert of
             None \<Rightarrow>
               \<lparr> v_status = V_VALID, messages = [''Key usage valid''], is_valid = True \<rparr>
           | Some bc \<Rightarrow>
               if ca bc \<and> \<not> key_cert_sign ku then
                 \<lparr> v_status = V_INVALID,
                   messages = [''CA certificate missing key_cert_sign usage''],
                   is_valid = False \<rparr>
               else
                 \<lparr> v_status = V_VALID, messages = [''Key usage valid''], is_valid = True \<rparr>))"

definition check_basic_constraints :: "certificate \<Rightarrow> ValidationResult" where
  "check_basic_constraints cert =
     (case basic_constraints cert of
        None \<Rightarrow>
          \<lparr> v_status = V_WARNING, messages = [''Basic constraints extension not found''],
            is_valid = True \<rparr>
      | Some bc \<Rightarrow>
          \<lparr> v_status = V_VALID,
            messages =
              (if ca bc then
                 [''Certificate is a CA certificate'']
                 @ (case path_length bc of
                      None \<Rightarrow> []
                    | Some n \<Rightarrow> [''Path length constraint: '' @ str_of_nat n])
               else [''Certificate is not a CA certificate'']),
            is_valid = True \<rparr>)"

subsection \<open>validate\_chain\<close>

definition cert_prefix :: "nat \<Rightarrow> string \<Rightarrow> string" where
  \<comment> \<open>\<open>f"Cert {i}: {msg}"\<close>\<close>
  "cert_prefix i msg = ''Cert '' @ str_of_nat i @ '': '' @ msg"

definition invalid_result :: "string list \<Rightarrow> ValidationResult" where
  \<comment> \<open>\<open>ValidationResult(status=INVALID, messages=messages, is_valid=False)\<close>\<close>
  "invalid_result msgs = \<lparr> v_status = V_INVALID, messages = msgs, is_valid = False \<rparr>"

definition valid_result :: "string list \<Rightarrow> ValidationResult" where
  \<comment> \<open>\<open>ValidationResult(status=VALID, messages=messages, is_valid=True)\<close>\<close>
  "valid_result msgs = \<lparr> v_status = V_VALID, messages = msgs, is_valid = True \<rparr>"

text \<open>
  The first loop, over \<open>enumerate(cert_chain)\<close> from index \<open>i\<close> with the messages
  so far: \<open>Inl\<close> is the \<open>return\<close> inside the loop, \<open>Inr\<close> the messages when the loop
  ends.
\<close>

fun structural_loop :: "nat \<Rightarrow> certificate list \<Rightarrow> string list \<Rightarrow> ValidationResult + string list" where
  "structural_loop i [] msgs = Inr msgs"
| "structural_loop i (cert # rest) msgs =
     (let bc_result = check_basic_constraints cert;
          msgs1 = msgs @ map (cert_prefix i) (messages bc_result);
          ku_result = check_key_usage cert;
          msgs2 = msgs1 @ map (cert_prefix i) (messages ku_result)
      in if \<not> is_valid ku_result then Inl (invalid_result msgs2)
         else structural_loop (Suc i) rest msgs2)"

text \<open>
  The second loop, over \<open>range(len(cert_chain) - 1)\<close>, at index \<open>i\<close> on the rest of the
  chain from \<open>cert_chain[i]\<close>. The first component of the result lists the indices
  at which \<open>verify_signature\<close> was called, in order; the code keeps no such list, it
  is here so that what the loop examines can be stated.
\<close>

fun linkage_loop ::
  "crypto \<Rightarrow> nat \<Rightarrow> certificate list \<Rightarrow> string list \<Rightarrow> nat list
     \<Rightarrow> nat list \<times> (ValidationResult + string list)" where
  "linkage_loop cr i (cert # issuer_cert # rest) msgs calls =
     (if issuer cert \<noteq> subject issuer_cert then
        (calls, Inl (invalid_result
           (msgs @ [cert_prefix i ''Issuer does not match next cert in chain''])))
      else if \<not> verify_signature cr cert issuer_cert then
        (calls @ [i], Inl (invalid_result
           (msgs @ [cert_prefix i ''Invalid signature from issuer''])))
      else
        linkage_loop cr (Suc i) (issuer_cert # rest)
          (msgs @ [cert_prefix i ''Signature valid'']) (calls @ [i]))"
| "linkage_loop cr i [cert] msgs calls = (calls, Inr msgs)"
| "linkage_loop cr i [] msgs calls = (calls, Inr msgs)"

text \<open>
  The third loop, over the trust store, with its \<open>break\<close>: the flag
  \<open>found_in_truststore\<close> and the messages.
\<close>

fun truststore_loop ::
  "crypto \<Rightarrow> certificate \<Rightarrow> certificate list \<Rightarrow> string list \<Rightarrow> bool \<times> string list" where
  "truststore_loop cr root_cert [] msgs = (False, msgs)"
| "truststore_loop cr root_cert (trusted_cert # rest) msgs =
     (if subject root_cert = subject trusted_cert then
        (if verify_signature cr root_cert trusted_cert then
           (True, msgs @ [''Root certificate found in truststore''])
         else truststore_loop cr root_cert rest msgs)
      else truststore_loop cr root_cert rest msgs)"

definition validate_chain ::
  "crypto \<Rightarrow> certificate list \<Rightarrow> certificate list \<Rightarrow> bool \<Rightarrow> ValidationResult" where
  \<comment> \<open>\<open>truststore\<close> is \<open>self.truststore\<close>\<close>
  "validate_chain cr truststore cert_chain use_truststore =
     (if cert_chain = [] then invalid_result [''Empty certificate chain'']
      else
        case structural_loop 0 cert_chain [] of
          Inl r \<Rightarrow> r
        | Inr msgs1 \<Rightarrow>
            (case snd (linkage_loop cr 0 cert_chain msgs1 []) of
               Inl r \<Rightarrow> r
             | Inr msgs2 \<Rightarrow>
                 if use_truststore \<and> truststore \<noteq> [] then
                   (let root_cert = last cert_chain;
                        (found_in_truststore, msgs3) =
                           truststore_loop cr root_cert truststore msgs2
                    in if \<not> found_in_truststore then
                         invalid_result (msgs3 @ [''Root certificate not found in truststore''])
                       else valid_result msgs3)
                 else valid_result msgs2))"

subsection \<open>validate\_single\<close>

definition validate_single :: "crypto \<Rightarrow> certificate \<Rightarrow> ValidationResult" where
  "validate_single cr cert =
     (let bc_result = check_basic_constraints cert;
          msgs1 = messages bc_result;
          ku_result = check_key_usage cert;
          msgs2 = msgs1 @ messages ku_result
      in if \<not> is_valid ku_result then invalid_result msgs2
         else if subject cert = issuer cert then
           (if verify_signature cr cert cert then
              valid_result (msgs2 @ [''Self-signed certificate with valid signature''])
            else
              invalid_result (msgs2 @ [''Self-signed certificate with INVALID signature'']))
         else valid_result msgs2)"

section \<open>Auxiliary notions for stating the properties\<close>


definition hours :: "int \<Rightarrow> int" where
  \<comment> \<open>\<open>timedelta(hours=n)\<close> in microseconds\<close>
  "hours n = n * 3600000000"

text \<open>
  The condition of the hard failure of \<open>check_key_usage\<close>: basic constraints mark
  the certificate as a CA and the key usage extension is present without
  \<open>key_cert_sign\<close>.
\<close>

definition ku_fatal :: "certificate \<Rightarrow> bool" where
  "ku_fatal cert =
     (case basic_constraints cert of
        None \<Rightarrow> False
      | Some bc \<Rightarrow>
          (case key_usage cert of
             None \<Rightarrow> False
           | Some ku \<Rightarrow> ca bc \<and> \<not> key_cert_sign ku))"

text \<open>
  The messages that the first loop of \<open>validate_chain\<close> appends for the certificate
  at index \<open>i\<close>, and for a list of certificates starting at index \<open>i\<close>.
\<close>

definition cert_messages :: "nat \<Rightarrow> certificate \<Rightarrow> string list" where
  "cert_messages i cert =
     map (cert_prefix i) (messages (check_basic_constraints cert))
     @ map (cert_prefix i) (messages (check_key_usage cert))"

fun trail :: "nat \<Rightarrow> certificate list \<Rightarrow> string list" where
  "trail i [] = []"
| "trail i (cert # rest) = cert_messages i cert @ trail (Suc i) rest"

text \<open>
  A link of the chain that the second loop accepts, and the confirmations appended
  for the \<open>k\<close> pairs from index \<open>i\<close>.
\<close>

definition link_ok :: "crypto \<Rightarrow> certificate \<Rightarrow> certificate \<Rightarrow> bool" where
  "link_ok cr cert issuer_cert =
     (issuer cert = subject issuer_cert \<and> verify_signature cr cert issuer_cert)"

definition signature_valid_messages :: "nat \<Rightarrow> nat \<Rightarrow> string list" where
  "signature_valid_messages i k = map (\<lambda>j. cert_prefix j ''Signature valid'') [i..<i + k]"

section \<open>Concrete inputs\<close>

text \<open>A certificate whose validity ends at the epoch, with no extensions.\<close>

definition cert_epoch :: certificate where
  "cert_epoch =
     \<lparr> subject = [(COMMON_NAME, ''example.com'')],
       issuer = [(COMMON_NAME, ''Example CA'')],
       not_valid_before_utc = 0, not_valid_after_utc = 0,
       subject_alternative_name = None, basic_constraints = None, key_usage = None,
       public_key = Inr (OtherPublicKey ''Ed25519PublicKey''),
       signature = [], tbs_certificate_bytes = [],
       signature_hash_algorithm = None \<rparr>"

text \<open>
  A leaf certificate for \<open>www.example.com\<close> with a wildcard alternative name, valid
  for the first year after the epoch, and a world that serves it one day after the
  epoch.
\<close>

definition cert_www :: certificate where
  "cert_www =
     \<lparr> subject = [(OTHER_OID ''O'', ''Example Org''), (COMMON_NAME, ''www.example.com'')],
       issuer = [(COMMON_NAME, ''Example CA'')],
       not_valid_before_utc = 0, not_valid_after_utc = 365 * 86400000000,
       subject_alternative_name = Some [''www.example.com'', ''*.example.com''],
       basic_constraints = None, key_usage = None,
       public_key = Inr (RSAPublicKey ''k1''),
       signature = ''s'', tbs_certificate_bytes = ''t'',
       signature_hash_algorithm = Some SHA256 \<rparr>"

definition world_www :: world where
  "world_www =
     \<lparr> w_getpeercert = (\<lambda>fq prt tmo. Inr (Some ''der'')),
       w_parse_der = (\<lambda>der. Inr cert_www),
       w_now = 86400000000 \<rparr>"

definition checker10 :: RemoteCertChecker where
  "checker10 = \<lparr> self_timeout = 10 \<rparr>"

text \<open>
  A toy signature scheme for concrete chains: the signature of the bytes \<open>tbs\<close> under
  the key \<open>k\<close> is \<open>k @ tbs\<close>. A chain of a leaf without extensions, an intermediate CA
  and a self-signed root; a CA certificate whose key usage lacks \<open>key_cert_sign\<close>; a
  root of another name; anchors that carry the name of the root or of the
  intermediate with an unrelated key \<open>kx\<close>; and an anchor for the name of the
  intermediate with the key that signed it.
\<close>

definition crypto_toy :: crypto where
  "crypto_toy =
     \<lparr> rsa_verify = (\<lambda>k sig tbs pad h.
          if sig = k @ tbs \<and> pad = PKCS1v15 then None else Some InvalidSignature),
       ec_verify = (\<lambda>k sig tbs alg. if sig = k @ tbs then None else Some InvalidSignature),
       dsa_verify = (\<lambda>k sig tbs h. Some (OtherException ''unsupported'')) \<rparr>"

definition ku_ca :: key_usage_ext where
  "ku_ca = \<lparr> digital_signature = True, key_encipherment = False,
             key_cert_sign = True, crl_sign = True \<rparr>"

definition cert_leaf :: certificate where
  "cert_leaf =
     \<lparr> subject = [(COMMON_NAME, ''leaf.example.com'')],
       issuer = [(COMMON_NAME, ''Example Intermediate'')],
       not_valid_before_utc = 0, not_valid_after_utc = 365 * 86400000000,
       subject_alternative_name = Some [''leaf.example.com''],
       basic_constraints = None, key_usage = None,
       public_key = Inr (RSAPublicKey ''kl''),
       signature = ''ki'' @ ''tbs-leaf'', tbs_certificate_bytes = ''tbs-leaf'',
       signature_hash_algorithm = Some SHA256 \<rparr>"

definition cert_inter :: certificate where
  "cert_inter =
     \<lparr> subject = [(COMMON_NAME, ''Example Intermediate'')],
       issuer = [(COMMON_NAME, ''Example Root'')],
       not_valid_before_utc = 0, not_valid_after_utc = 3650 * 86400000000,
       subject_alternative_name = None,
       basic_constraints = Some \<lparr> ca = True, path_length = Some 0 \<rparr>,
       key_usage = Some ku_ca,
       public_key = Inr (RSAPublicKey ''ki''),
       signature = ''kr'' @ ''tbs-inter'', tbs_certificate_bytes = ''tbs-inter'',
       signature_hash_algorithm = Some SHA256 \<rparr>"

definition cert_root :: certificate where
  "cert_root =
     \<lparr> subject = [(COMMON_NAME, ''Example Root'')],
       issuer = [(COMMON_NAME, ''Example Root'')],
       not_valid_before_utc = 0, not_valid_after_utc = 7300 * 86400000000,
       subject_alternative_name = None,
       basic_constraints = Some \<lparr> ca = True, path_length = None \<rparr>,
       key_usage = Some ku_ca,
       public_key = Inr (RSAPublicKey ''kr''),
       signature = ''kr'' @ ''tbs-root'', tbs_certificate_bytes = ''tbs-root'',
       signature_hash_algorithm = Some SHA256 \<rparr>"

definition cert_bad_ca :: certificate where
  "cert_bad_ca = cert_root \<lparr> key_usage := Some (ku_ca \<lparr> key_cert_sign := False \<rparr>) \<rparr>"

definition cert_other_root :: certificate where
  "cert_other_root =
     cert_root \<lparr> subject := [(COMMON_NAME, ''Other Root'')],
                 issuer := [(COMMON_NAME, ''Other Root'')] \<rparr>"

definition anchor_spoof :: certificate where
  "anchor_spoof = cert_root \<lparr> public_key := Inr (RSAPublicKey ''kx'') \<rparr>"

definition anchor_inter_spoof :: certificate where
  "anchor_inter_spoof = cert_inter \<lparr> public_key := Inr (RSAPublicKey ''kx'') \<rparr>"

definition anchor_inter :: certificate where
  "anchor_inter = cert_inter \<lparr> public_key := Inr (RSAPublicKey ''kr'') \<rparr>"

section \<open>Properties of check\_expiration\<close>

lemma check_expiration_fields:
  "not_before (check_expiration cert wd now) = not_valid_before_utc cert"
  "not_after (check_expiration cert wd now) = not_valid_after_utc cert"
  "days_remaining (check_expiration cert wd now) =
     (not_valid_after_utc cert - now) div 86400000000"
  "is_expired (check_expiration cert wd now) = (now > not_valid_after_utc cert)"
  "is_warning (check_expiration cert wd now) =
     (\<not> now > not_valid_after_utc cert
      \<and> (not_valid_after_utc cert - now) div 86400000000 < wd)"
  "status (check_expiration cert wd now) =
     (if now > not_valid_after_utc cert then EXPIRED
      else if (not_valid_after_utc cert - now) div 86400000000 < wd then WARNING
      else VALID)"
  by (simp_all add: check_expiration_def get_validity_period_def timedelta_days_def
        microseconds_per_day_def Let_def)


text \<open>
  C9, as amended. \<open>days_remaining\<close> is the floor of the difference in days, so it
  is negative as soon as \<open>now\<close> is past \<open>not_after\<close>: the strict comparison and the
  day arithmetic never disagree, \<open>is_expired\<close> holds exactly when
  \<open>days_remaining < 0\<close>. At 23 hours past \<open>not_after\<close> the check reports
  \<open>is_expired = True\<close> and \<open>days_remaining = -1\<close>.
\<close>

theorem is_expired_iff_days_remaining_negative:
  "is_expired (check_expiration cert wd now)
     = (days_remaining (check_expiration cert wd now) < 0)
   \<and> is_expired (check_expiration cert wd (not_valid_after_utc cert + hours 23)) = True
   \<and> days_remaining (check_expiration cert wd (not_valid_after_utc cert + hours 23)) = - 1"
proof -
  have "(now > not_valid_after_utc cert)
          = ((not_valid_after_utc cert - now) div 86400000000 < 0)"
    by (simp add: pos_imp_zdiv_neg_iff)
  then show ?thesis
    by (simp add: check_expiration_fields hours_def)
qed

text \<open>
  C9, as stated, fails: no certificate and threshold give \<open>is_expired = True\<close>
  together with \<open>days_remaining = 0\<close> at 23 hours past \<open>not_after\<close>; for a
  certificate with \<open>not_after\<close> at the epoch the value is \<open>-1\<close>.
\<close>

theorem days_remaining_23_hours_past_counterexample:
  "days_remaining (check_expiration cert_epoch 30 (not_valid_after_utc cert_epoch + hours 23)) = - 1
   \<and> \<not> (\<exists>cert wd.
          is_expired (check_expiration cert wd (not_valid_after_utc cert + hours 23))
          \<and> days_remaining (check_expiration cert wd (not_valid_after_utc cert + hours 23)) = 0)"
  by (simp add: check_expiration_fields hours_def)

section \<open>Properties of check\_host\<close>

text \<open>
  C6. Whenever the fetch returns a certificate, the overall status of the result is
  the expiration status of the leaf, unless the host name does not match, in which
  case it is \<open>ERROR\<close> whatever the expiration status is; the result carries the
  certificate, its expiration information and the outcome of the host name check.
\<close>

theorem check_host_status:
  assumes "get_certificate_chain self w fq prt tmo = Inr (cert # rest)"
  shows "hc_status (check_host self w fq prt wd hn tmo) =
           (if verify_hostname cert fq then status (check_expiration cert wd (w_now w))
            else ERROR)
         \<and> hostname_valid (check_host self w fq prt wd hn tmo) = Some (verify_hostname cert fq)
         \<and> expiration (check_host self w fq prt wd hn tmo)
             = Some (check_expiration cert wd (w_now w))
         \<and> hc_certificate (check_host self w fq prt wd hn tmo) = Some cert"
  using assms by (simp add: check_host_def check_host_try_def Let_def)

lemma get_certificate_chain_world_www:
  "get_certificate_chain checker10 world_www ''mail.example.org'' 443 None = Inr [cert_www]"
  by (simp add: get_certificate_chain_def world_www_def)

lemma verify_hostname_cert_www_mismatch:
  "verify_hostname cert_www ''mail.example.org'' = False"
  by code_simp

text \<open>
  The certificate of \<open>www.example.com\<close>, not expired and outside the warning window,
  served for \<open>mail.example.org\<close>: the expiration status is \<open>VALID\<close> and the overall
  status is \<open>ERROR\<close>.
\<close>

theorem check_host_status_witness:
  "get_certificate_chain checker10 world_www ''mail.example.org'' 443 None = Inr [cert_www]
   \<and> status (check_expiration cert_www 30 (w_now world_www)) = VALID
   \<and> hc_status (check_host checker10 world_www ''mail.example.org'' 443 30 None None) = ERROR"
  using check_host_status [OF get_certificate_chain_world_www, of 30 None]
    verify_hostname_cert_www_mismatch get_certificate_chain_world_www
  by (simp add: check_expiration_fields) (simp add: cert_www_def world_www_def)

text \<open>
  C7. \<open>check_host\<close> returns a result for every input and every outcome of the fetch
  (the model is a total function whose handlers cover every exception). When the
  fetch raises (timeout, name resolution, socket or SSL error, any other exception)
  or returns no certificate, the result has status \<open>ERROR\<close>, a non-empty error string
  and neither certificate nor expiration; when it returns a certificate, the result
  has certificate and expiration and no error. So exactly one of "error populated"
  and "certificate and expiration populated" holds of every result.
\<close>

theorem check_host_total:
  "(case get_certificate_chain self w fq prt tmo of
      Inr (cert # rest) \<Rightarrow>
        error (check_host self w fq prt wd hn tmo) = None
        \<and> hc_certificate (check_host self w fq prt wd hn tmo) = Some cert
        \<and> expiration (check_host self w fq prt wd hn tmo)
            = Some (check_expiration cert wd (w_now w))
    | _ \<Rightarrow>
        hc_status (check_host self w fq prt wd hn tmo) = ERROR
        \<and> (\<exists>msg. error (check_host self w fq prt wd hn tmo) = Some msg \<and> msg \<noteq> [])
        \<and> hc_certificate (check_host self w fq prt wd hn tmo) = None
        \<and> expiration (check_host self w fq prt wd hn tmo) = None)
   \<and> ((error (check_host self w fq prt wd hn tmo) \<noteq> None)
        \<noteq> (hc_certificate (check_host self w fq prt wd hn tmo) \<noteq> None
            \<and> expiration (check_host self w fq prt wd hn tmo) \<noteq> None))"
  by (simp add: check_host_def check_host_try_def error_result_def Let_def
        split: sum.splits list.splits py_exception.splits)

section \<open>Properties of verify\_signature\<close>

text \<open>
  C8. \<open>verify_signature\<close> returns a boolean for every pair of certificates: it is
  true exactly when the body of the \<open>try\<close> block ends normally with true, and false
  for every exception. It dispatches on the class of the issuer's public key: an RSA
  key verifies with PKCS#1 v1.5 padding and the certificate's declared hash, an
  elliptic-curve key with ECDSA over the declared hash, a DSA key directly with the
  declared hash, each over the certificate's signature and its to-be-signed bytes;
  any other key gives false without a verification.
\<close>

theorem verify_signature_dispatch:
  "verify_signature cr cert issuer_cert
     = (verify_signature_try cr cert issuer_cert = Inr True)
   \<and> verify_signature cr cert issuer_cert =
     (case public_key issuer_cert of
        Inl e \<Rightarrow> False
      | Inr (RSAPublicKey k) \<Rightarrow>
          rsa_verify cr k (signature cert) (tbs_certificate_bytes cert) PKCS1v15
            (signature_hash_algorithm cert) = None
      | Inr (EllipticCurvePublicKey k) \<Rightarrow>
          ec_verify cr k (signature cert) (tbs_certificate_bytes cert)
            (ECDSA (signature_hash_algorithm cert)) = None
      | Inr (DSAPublicKey k) \<Rightarrow>
          dsa_verify cr k (signature cert) (tbs_certificate_bytes cert)
            (signature_hash_algorithm cert) = None
      | Inr (OtherPublicKey n) \<Rightarrow> False)"
  by (simp add: verify_signature_def verify_signature_try_def
        split: sum.splits public_key.splits option.splits py_exception.splits)

section \<open>The shape of validation results\<close>

lemma structural_loop_Inl:
  "structural_loop i cs m = Inl r \<Longrightarrow> \<exists>ms. r = invalid_result ms"
  by (induction cs arbitrary: i m) (auto simp: Let_def split: if_splits)

lemma linkage_loop_Inl:
  "snd (linkage_loop cr i cs m calls) = Inl r \<Longrightarrow> \<exists>ms. r = invalid_result ms"
  by (induction cr i cs m calls rule: linkage_loop.induct) (auto split: if_splits)

lemma result_shapes:
  "v_status (invalid_result ms) = V_INVALID" "is_valid (invalid_result ms) = False"
  "v_status (valid_result ms) = V_VALID" "is_valid (valid_result ms) = True"
  "messages (invalid_result ms) = ms" "messages (valid_result ms) = ms"
  by (simp_all add: invalid_result_def valid_result_def)

lemma validate_chain_shape:
  "\<exists>ms. validate_chain cr ts chain u = invalid_result ms
        \<or> validate_chain cr ts chain u = valid_result ms"
  by (auto simp: validate_chain_def Let_def split: sum.splits prod.splits
        dest: structural_loop_Inl linkage_loop_Inl)

lemma validate_single_shape:
  "\<exists>ms. validate_single cr cert = invalid_result ms
        \<or> validate_single cr cert = valid_result ms"
  by (auto simp: validate_single_def Let_def)

text \<open>
  C10. For every chain, trust store and flag, and for every single certificate, the
  result of \<open>validate_chain\<close> and of \<open>validate_single\<close> has status \<open>VALID\<close> or
  \<open>INVALID\<close>, never \<open>WARNING\<close> (whatever warnings of the sub-checks are in the
  messages), and \<open>is_valid\<close> is true exactly when the status is \<open>VALID\<close>.
\<close>

theorem validation_status_never_warning:
  "v_status (validate_chain cr ts chain u) \<noteq> V_WARNING
   \<and> is_valid (validate_chain cr ts chain u)
       = (v_status (validate_chain cr ts chain u) = V_VALID)
   \<and> v_status (validate_single cr cert) \<noteq> V_WARNING
   \<and> is_valid (validate_single cr cert) = (v_status (validate_single cr cert) = V_VALID)"
proof -
  obtain ms where c: "validate_chain cr ts chain u = invalid_result ms
      \<or> validate_chain cr ts chain u = valid_result ms"
    using validate_chain_shape by blast
  obtain ms' where s: "validate_single cr cert = invalid_result ms'
      \<or> validate_single cr cert = valid_result ms'"
    using validate_single_shape by blast
  from c s show ?thesis by (auto simp: result_shapes)
qed

section \<open>Properties of \_match\_hostname\<close>















section \<open>The structural pass\<close>

lemma check_key_usage_is_valid: "is_valid (check_key_usage cert) = (\<not> ku_fatal cert)"
  by (auto simp: check_key_usage_def ku_fatal_def split: option.splits)

lemma check_key_usage_fatal:
  "ku_fatal cert \<Longrightarrow> check_key_usage cert = \<lparr> v_status = V_INVALID,
                   messages = [''CA certificate missing key_cert_sign usage''],
                   is_valid = False \<rparr>"
  by (auto simp: check_key_usage_def ku_fatal_def split: option.splits)

lemma structural_loop_step:
  "\<not> ku_fatal cert \<Longrightarrow>
   structural_loop i (cert # rest) msgs = structural_loop (Suc i) rest (msgs @ cert_messages i cert)"
  by (simp add: Let_def check_key_usage_is_valid cert_messages_def)

lemma structural_loop_stop:
  "ku_fatal cert \<Longrightarrow>
   structural_loop i (cert # rest) msgs = Inl (invalid_result (msgs @ cert_messages i cert))"
  by (simp add: Let_def check_key_usage_is_valid cert_messages_def)

lemma structural_loop_all_ok:
  "\<forall>c\<in>set cs. \<not> ku_fatal c \<Longrightarrow> structural_loop i cs msgs = Inr (msgs @ trail i cs)"
proof (induction cs arbitrary: i msgs)
  case Nil
  show ?case by simp
next
  case (Cons c cs)
  then show ?case by (simp add: structural_loop_step del: structural_loop.simps)
qed

lemma structural_loop_first_fatal:
  "k < length cs \<Longrightarrow> \<forall>c\<in>set (take k cs). \<not> ku_fatal c \<Longrightarrow> ku_fatal (cs ! k) \<Longrightarrow>
   structural_loop i cs msgs = Inl (invalid_result (msgs @ trail i (take (Suc k) cs)))"
proof (induction cs arbitrary: i k msgs)
  case Nil
  then show ?case by simp
next
  case (Cons c cs)
  show ?case
  proof (cases k)
    case 0
    with Cons.prems show ?thesis by (simp add: structural_loop_stop del: structural_loop.simps)
  next
    case (Suc k')
    with Cons.prems have "\<not> ku_fatal c" "k' < length cs" "\<forall>c\<in>set (take k' cs). \<not> ku_fatal c" "ku_fatal (cs ! k')"
      by simp_all
    with Cons.IH [of k' "Suc i" "msgs @ cert_messages i c"] Suc show ?thesis
      by (simp add: structural_loop_step del: structural_loop.simps)
  qed
qed

lemma trail_append: "trail i (xs @ ys) = trail i xs @ trail (i + length xs) ys"
  by (induction xs arbitrary: i) auto

lemma trail_take_Suc:
  "k < length cs \<Longrightarrow> trail i (take (Suc k) cs) = trail i (take k cs) @ cert_messages (i + k) (cs ! k)"
  by (simp add: take_Suc_conv_app_nth trail_append)

lemma cert_messages_fatal:
  "ku_fatal cert \<Longrightarrow> cert_messages i cert =
     map (cert_prefix i) (messages (check_basic_constraints cert))
     @ [cert_prefix i ''CA certificate missing key_cert_sign usage'']"
  by (simp add: cert_messages_def check_key_usage_fatal)


section \<open>The linkage pass and the trust store\<close>

lemma upt_shift: "[i..<i + Suc k] = i # [Suc i..<Suc i + k]"
  by (simp add: upt_conv_Cons del: upt_Suc)

lemma signature_valid_messages_Suc:
  "signature_valid_messages i (Suc k) = cert_prefix i ''Signature valid'' # signature_valid_messages (Suc i) k"
  unfolding signature_valid_messages_def upt_shift by simp

lemma linkage_loop_ok_step:
  "link_ok cr c d \<Longrightarrow>
   linkage_loop cr i (c # d # rest) msgs calls =
     linkage_loop cr (Suc i) (d # rest) (msgs @ [cert_prefix i ''Signature valid'']) (calls @ [i])"
  by (simp add: link_ok_def)

lemma linkage_loop_name_mismatch:
  "Suc k < length cs \<Longrightarrow> \<forall>j<k. link_ok cr (cs ! j) (cs ! Suc j) \<Longrightarrow>
   issuer (cs ! k) \<noteq> subject (cs ! Suc k) \<Longrightarrow>
   linkage_loop cr i cs msgs calls =
     (calls @ [i..<i + k],
      Inl (invalid_result (msgs @ signature_valid_messages i k
             @ [cert_prefix (i + k) ''Issuer does not match next cert in chain''])))"
proof (induction k arbitrary: i cs msgs calls)
  case 0
  then obtain c d rest where cs: "cs = c # d # rest"
    by (cases cs; cases "tl cs") auto
  with 0 show ?case by (simp add: signature_valid_messages_def)
next
  case (Suc k)
  then obtain c d rest where cs: "cs = c # d # rest"
    by (cases cs; cases "tl cs") auto
  from Suc.prems cs have ok: "link_ok cr c d" by auto
  have "\<forall>j<k. link_ok cr ((d # rest) ! j) ((d # rest) ! Suc j)"
  proof (intro allI impI)
    fix j assume "j < k"
    then have "Suc j < Suc k" by simp
    with Suc.prems(2) have "link_ok cr (cs ! Suc j) (cs ! Suc (Suc j))" by blast
    with cs show "link_ok cr ((d # rest) ! j) ((d # rest) ! Suc j)" by simp
  qed
  moreover from Suc.prems cs have "Suc k < length (d # rest)"
    "issuer ((d # rest) ! k) \<noteq> subject ((d # rest) ! Suc k)" by simp_all
  ultimately have "linkage_loop cr (Suc i) (d # rest) (msgs @ [cert_prefix i ''Signature valid'']) (calls @ [i]) =
     ((calls @ [i]) @ [Suc i..<Suc i + k],
      Inl (invalid_result ((msgs @ [cert_prefix i ''Signature valid'']) @ signature_valid_messages (Suc i) k
             @ [cert_prefix (Suc i + k) ''Issuer does not match next cert in chain''])))"
    using Suc.IH [of "d # rest" "Suc i" "msgs @ [cert_prefix i ''Signature valid'']" "calls @ [i]"] by blast
  then show ?case
    unfolding cs linkage_loop_ok_step [OF ok] signature_valid_messages_Suc upt_shift by simp
qed

lemma linkage_loop_bad_signature:
  "Suc k < length cs \<Longrightarrow> \<forall>j<k. link_ok cr (cs ! j) (cs ! Suc j) \<Longrightarrow>
   issuer (cs ! k) = subject (cs ! Suc k) \<Longrightarrow> \<not> verify_signature cr (cs ! k) (cs ! Suc k) \<Longrightarrow>
   linkage_loop cr i cs msgs calls =
     (calls @ [i..<i + Suc k],
      Inl (invalid_result (msgs @ signature_valid_messages i k
             @ [cert_prefix (i + k) ''Invalid signature from issuer''])))"
proof (induction k arbitrary: i cs msgs calls)
  case 0
  then obtain c d rest where cs: "cs = c # d # rest"
    by (cases cs; cases "tl cs") auto
  with 0 show ?case by (simp add: signature_valid_messages_def)
next
  case (Suc k)
  then obtain c d rest where cs: "cs = c # d # rest"
    by (cases cs; cases "tl cs") auto
  from Suc.prems cs have ok: "link_ok cr c d" by auto
  have "\<forall>j<k. link_ok cr ((d # rest) ! j) ((d # rest) ! Suc j)"
  proof (intro allI impI)
    fix j assume "j < k"
    then have "Suc j < Suc k" by simp
    with Suc.prems(2) have "link_ok cr (cs ! Suc j) (cs ! Suc (Suc j))" by blast
    with cs show "link_ok cr ((d # rest) ! j) ((d # rest) ! Suc j)" by simp
  qed
  moreover from Suc.prems cs have "Suc k < length (d # rest)"
    "issuer ((d # rest) ! k) = subject ((d # rest) ! Suc k)"
    "\<not> verify_signature cr ((d # rest) ! k) ((d # rest) ! Suc k)" by simp_all
  ultimately have "linkage_loop cr (Suc i) (d # rest) (msgs @ [cert_prefix i ''Signature valid'']) (calls @ [i]) =
     ((calls @ [i]) @ [Suc i..<Suc i + Suc k],
      Inl (invalid_result ((msgs @ [cert_prefix i ''Signature valid'']) @ signature_valid_messages (Suc i) k
             @ [cert_prefix (Suc i + k) ''Invalid signature from issuer''])))"
    using Suc.IH [of "d # rest" "Suc i" "msgs @ [cert_prefix i ''Signature valid'']" "calls @ [i]"] by blast
  then show ?case
    unfolding cs linkage_loop_ok_step [OF ok] signature_valid_messages_Suc upt_shift [of i "Suc k"] by simp
qed

lemma linkage_loop_all_ok:
  "\<forall>j. Suc j < length cs \<longrightarrow> link_ok cr (cs ! j) (cs ! Suc j) \<Longrightarrow>
   linkage_loop cr i cs msgs calls =
     (calls @ [i..<i + (length cs - 1)],
      Inr (msgs @ signature_valid_messages i (length cs - 1)))"
proof (induction cr i cs msgs calls rule: linkage_loop.induct)
  case (1 cr i cert issuer_cert rest msgs calls)
  from "1.prems" have ok: "link_ok cr cert issuer_cert" by auto
  have "\<forall>j. Suc j < length (issuer_cert # rest) \<longrightarrow> link_ok cr ((issuer_cert # rest) ! j) ((issuer_cert # rest) ! Suc j)"
  proof (intro allI impI)
    fix j assume "Suc j < length (issuer_cert # rest)"
    then have "Suc (Suc j) < length (cert # issuer_cert # rest)" by simp
    with "1.prems" have "link_ok cr ((cert # issuer_cert # rest) ! Suc j) ((cert # issuer_cert # rest) ! Suc (Suc j))" by blast
    then show "link_ok cr ((issuer_cert # rest) ! j) ((issuer_cert # rest) ! Suc j)" by simp
  qed
  with "1.IH" ok have "linkage_loop cr (Suc i) (issuer_cert # rest) (msgs @ [cert_prefix i ''Signature valid'']) (calls @ [i]) =
     ((calls @ [i]) @ [Suc i..<Suc i + (length (issuer_cert # rest) - 1)],
      Inr ((msgs @ [cert_prefix i ''Signature valid'']) @ signature_valid_messages (Suc i) (length (issuer_cert # rest) - 1)))"
    by (simp add: link_ok_def)
  then show ?case
    unfolding linkage_loop_ok_step [OF ok]
    using signature_valid_messages_Suc [of i "length rest"] upt_shift [of i "length rest"] by simp
next
  case (2 cr i cert msgs calls)
  show ?case by (simp add: signature_valid_messages_def)
next
  case (3 cr i msgs calls)
  show ?case by (simp add: signature_valid_messages_def)
qed

lemma truststore_loop_find:
  "truststore_loop cr root_cert ts msgs =
     (case find (\<lambda>a. subject root_cert = subject a \<and> verify_signature cr root_cert a) ts of
        Some a \<Rightarrow> (True, msgs @ [''Root certificate found in truststore''])
      | None \<Rightarrow> (False, msgs))"
  by (induction ts) auto


lemma linkage_loop_prefix:
  "k < length cs \<Longrightarrow> \<forall>j<k. link_ok cr (cs ! j) (cs ! Suc j) \<Longrightarrow>
   linkage_loop cr i cs msgs calls =
     linkage_loop cr (i + k) (drop k cs) (msgs @ signature_valid_messages i k) (calls @ [i..<i + k])"
proof (induction k arbitrary: i cs msgs calls)
  case 0
  show ?case by (simp add: signature_valid_messages_def)
next
  case (Suc k)
  then obtain c d rest where cs: "cs = c # d # rest"
    by (cases cs; cases "tl cs") auto
  from Suc.prems cs have ok: "link_ok cr c d" by auto
  have "\<forall>j<k. link_ok cr ((d # rest) ! j) ((d # rest) ! Suc j)"
  proof (intro allI impI)
    fix j assume "j < k"
    then have "Suc j < Suc k" by simp
    with Suc.prems(2) have "link_ok cr (cs ! Suc j) (cs ! Suc (Suc j))" by blast
    with cs show "link_ok cr ((d # rest) ! j) ((d # rest) ! Suc j)" by simp
  qed
  moreover from Suc.prems cs have "k < length (d # rest)" by simp
  ultimately have "linkage_loop cr (Suc i) (d # rest) (msgs @ [cert_prefix i ''Signature valid'']) (calls @ [i]) =
     linkage_loop cr (Suc i + k) (drop k (d # rest))
       ((msgs @ [cert_prefix i ''Signature valid'']) @ signature_valid_messages (Suc i) k)
       ((calls @ [i]) @ [Suc i..<Suc i + k])"
    using Suc.IH [of "d # rest" "Suc i" "msgs @ [cert_prefix i ''Signature valid'']" "calls @ [i]"] by blast
  then show ?case
    unfolding cs linkage_loop_ok_step [OF ok] signature_valid_messages_Suc upt_shift by simp
qed

lemma validate_chain_linkage_failure:
  "chain \<noteq> [] \<Longrightarrow> structural_loop 0 chain [] = Inr m1 \<Longrightarrow>
   linkage_loop cr 0 chain m1 [] = (calls, Inl r) \<Longrightarrow>
   validate_chain cr ts chain u = r"
  by (simp add: validate_chain_def)

text \<open>
  C3. For a chain of at least two certificates whose first loop has ended, the second
  loop handles the pairs in index order. If the pairs before index \<open>k\<close> are accepted,
  the loop has called \<open>verify_signature\<close> at the indices \<open>0..k-1\<close>, has appended one
  confirmation for each, and stands at pair \<open>k\<close>. If the issuer of \<open>chain[k]\<close> differs
  from the subject of \<open>chain[k+1]\<close>, the result is \<open>INVALID\<close> at once:
  \<open>verify_signature\<close> is called for no pair from \<open>k\<close> on, and the trail ends with the
  message for index \<open>k\<close>. If the names agree and the signature does not verify, the
  result is \<open>INVALID\<close> with the message for index \<open>k\<close> last, index \<open>k\<close> being the last
  verification. If the signature verifies, the confirmation for \<open>k\<close> is appended and
  the loop goes on with pair \<open>k+1\<close>.
\<close>

theorem linkage_pass_short_circuit:
  assumes "Suc k < length chain"
    and "\<forall>j<k. link_ok cr (chain ! j) (chain ! Suc j)"
    and "structural_loop 0 chain [] = Inr m1"
  shows "linkage_loop cr 0 chain m1 [] =
           linkage_loop cr k (drop k chain) (m1 @ signature_valid_messages 0 k) [0..<k]
         \<and> (issuer (chain ! k) \<noteq> subject (chain ! Suc k) \<longrightarrow>
              linkage_loop cr 0 chain m1 [] =
                ([0..<k],
                 Inl (invalid_result (m1 @ signature_valid_messages 0 k
                        @ [cert_prefix k ''Issuer does not match next cert in chain''])))
              \<and> validate_chain cr ts chain u =
                  invalid_result (m1 @ signature_valid_messages 0 k
                        @ [cert_prefix k ''Issuer does not match next cert in chain'']))
         \<and> (issuer (chain ! k) = subject (chain ! Suc k)
              \<and> \<not> verify_signature cr (chain ! k) (chain ! Suc k) \<longrightarrow>
              linkage_loop cr 0 chain m1 [] =
                ([0..<Suc k],
                 Inl (invalid_result (m1 @ signature_valid_messages 0 k
                        @ [cert_prefix k ''Invalid signature from issuer''])))
              \<and> validate_chain cr ts chain u =
                  invalid_result (m1 @ signature_valid_messages 0 k
                        @ [cert_prefix k ''Invalid signature from issuer'']))
         \<and> (issuer (chain ! k) = subject (chain ! Suc k)
              \<and> verify_signature cr (chain ! k) (chain ! Suc k) \<longrightarrow>
              linkage_loop cr 0 chain m1 [] =
                linkage_loop cr (Suc k) (drop (Suc k) chain)
                  (m1 @ signature_valid_messages 0 k @ [cert_prefix k ''Signature valid''])
                  [0..<Suc k])"
proof -
  from assms(1) have ne: "chain \<noteq> []" and k: "k < length chain" by auto
  have p: "linkage_loop cr 0 chain m1 [] =
           linkage_loop cr k (drop k chain) (m1 @ signature_valid_messages 0 k) [0..<k]"
    using linkage_loop_prefix [OF k assms(2), of 0 m1 "[]"] by simp
  have a: "linkage_loop cr 0 chain m1 [] =
                ([0..<k],
                 Inl (invalid_result (m1 @ signature_valid_messages 0 k
                        @ [cert_prefix k ''Issuer does not match next cert in chain''])))"
    if "issuer (chain ! k) \<noteq> subject (chain ! Suc k)"
    using linkage_loop_name_mismatch [OF assms(1) assms(2) that, of 0 m1 "[]"] by simp
  have b: "linkage_loop cr 0 chain m1 [] =
                ([0..<Suc k],
                 Inl (invalid_result (m1 @ signature_valid_messages 0 k
                        @ [cert_prefix k ''Invalid signature from issuer''])))"
    if "issuer (chain ! k) = subject (chain ! Suc k)"
       "\<not> verify_signature cr (chain ! k) (chain ! Suc k)"
    using linkage_loop_bad_signature [OF assms(1) assms(2) that, of 0 m1 "[]"]
    by (simp del: upt_Suc)
  have c: "linkage_loop cr 0 chain m1 [] =
                linkage_loop cr (Suc k) (drop (Suc k) chain)
                  (m1 @ signature_valid_messages 0 k @ [cert_prefix k ''Signature valid''])
                  [0..<Suc k]"
    if "issuer (chain ! k) = subject (chain ! Suc k)"
       "verify_signature cr (chain ! k) (chain ! Suc k)"
  proof -
    have "\<forall>j<Suc k. link_ok cr (chain ! j) (chain ! Suc j)"
      using assms(2) that by (auto simp: link_ok_def less_Suc_eq)
    from linkage_loop_prefix [OF assms(1) this, of 0 m1 "[]"] show ?thesis
      by (simp add: signature_valid_messages_def del: upt_Suc) simp
  qed
  from p a b c validate_chain_linkage_failure [OF ne assms(3)] show ?thesis
    by presburger
qed

lemma chain_other_root_structural:
  "structural_loop 0 [cert_leaf, cert_inter, cert_other_root] [] = Inr
     [''Cert 0: Basic constraints extension not found'',
      ''Cert 0: Key usage extension not found'',
      ''Cert 1: Certificate is a CA certificate'',
      ''Cert 1: Path length constraint: 0'', ''Cert 1: Key usage valid'',
      ''Cert 2: Certificate is a CA certificate'', ''Cert 2: Key usage valid'']"
  by code_simp

lemma chain_spoof_structural:
  "structural_loop 0 [cert_leaf, cert_inter, anchor_spoof] [] = Inr
     [''Cert 0: Basic constraints extension not found'',
      ''Cert 0: Key usage extension not found'',
      ''Cert 1: Certificate is a CA certificate'',
      ''Cert 1: Path length constraint: 0'', ''Cert 1: Key usage valid'',
      ''Cert 2: Certificate is a CA certificate'', ''Cert 2: Key usage valid'']"
  by code_simp

lemma link_leaf_inter: "link_ok crypto_toy cert_leaf cert_inter"
  by code_simp

lemma names_inter_other_root: "issuer cert_inter \<noteq> subject cert_other_root"
  by code_simp

lemma names_inter_spoof: "issuer cert_inter = subject anchor_spoof"
  by code_simp

lemma bad_signature_inter_spoof: "\<not> verify_signature crypto_toy cert_inter anchor_spoof"
  by code_simp

lemma signature_valid_messages_0_1: "signature_valid_messages 0 (Suc 0) = [''Cert 0: Signature valid'']"
  by code_simp

lemma cert_prefix_0: "cert_prefix 0 ''Signature valid'' = ''Cert 0: Signature valid''"
  by code_simp

lemma cert_prefix_1:
  "cert_prefix (Suc 0) ''Issuer does not match next cert in chain''
     = ''Cert 1: Issuer does not match next cert in chain''"
  "cert_prefix (Suc 0) ''Invalid signature from issuer''
     = ''Cert 1: Invalid signature from issuer''"
  by code_simp+

text \<open>
  The chain of leaf, intermediate and a root of another name fails at index 1 on the
  names, after one verification; with an anchor of the right name and an unrelated
  key in the place of the root it fails at index 1 on the signature.
\<close>

theorem linkage_pass_short_circuit_witness:
  "link_ok crypto_toy cert_leaf cert_inter
   \<and> linkage_loop crypto_toy 0 [cert_leaf, cert_inter, cert_other_root]
        [''Cert 0: Basic constraints extension not found'',
         ''Cert 0: Key usage extension not found'',
         ''Cert 1: Certificate is a CA certificate'',
         ''Cert 1: Path length constraint: 0'', ''Cert 1: Key usage valid'',
         ''Cert 2: Certificate is a CA certificate'', ''Cert 2: Key usage valid''] []
       = linkage_loop crypto_toy 1 [cert_inter, cert_other_root]
        [''Cert 0: Basic constraints extension not found'',
         ''Cert 0: Key usage extension not found'',
         ''Cert 1: Certificate is a CA certificate'',
         ''Cert 1: Path length constraint: 0'', ''Cert 1: Key usage valid'',
         ''Cert 2: Certificate is a CA certificate'', ''Cert 2: Key usage valid'',
         ''Cert 0: Signature valid''] [0]
   \<and> issuer cert_inter \<noteq> subject cert_other_root
   \<and> linkage_loop crypto_toy 0 [cert_leaf, cert_inter, cert_other_root]
        [''Cert 0: Basic constraints extension not found'',
         ''Cert 0: Key usage extension not found'',
         ''Cert 1: Certificate is a CA certificate'',
         ''Cert 1: Path length constraint: 0'', ''Cert 1: Key usage valid'',
         ''Cert 2: Certificate is a CA certificate'', ''Cert 2: Key usage valid''] []
       = ([0],
          Inl (invalid_result
            [''Cert 0: Basic constraints extension not found'',
             ''Cert 0: Key usage extension not found'',
             ''Cert 1: Certificate is a CA certificate'',
             ''Cert 1: Path length constraint: 0'', ''Cert 1: Key usage valid'',
             ''Cert 2: Certificate is a CA certificate'', ''Cert 2: Key usage valid'',
             ''Cert 0: Signature valid'',
             ''Cert 1: Issuer does not match next cert in chain'']))
   \<and> issuer cert_inter = subject anchor_spoof
   \<and> \<not> verify_signature crypto_toy cert_inter anchor_spoof
   \<and> validate_chain crypto_toy [] [cert_leaf, cert_inter, anchor_spoof] True
       = invalid_result
            [''Cert 0: Basic constraints extension not found'',
             ''Cert 0: Key usage extension not found'',
             ''Cert 1: Certificate is a CA certificate'',
             ''Cert 1: Path length constraint: 0'', ''Cert 1: Key usage valid'',
             ''Cert 2: Certificate is a CA certificate'', ''Cert 2: Key usage valid'',
             ''Cert 0: Signature valid'',
             ''Cert 1: Invalid signature from issuer'']"
proof -
  have len: "Suc 1 < length [cert_leaf, cert_inter, cert_other_root]"
    "Suc 1 < length [cert_leaf, cert_inter, anchor_spoof]" by simp_all
  have pre: "\<forall>j<1. link_ok crypto_toy ([cert_leaf, cert_inter, cert_other_root] ! j)
                 ([cert_leaf, cert_inter, cert_other_root] ! Suc j)"
    "\<forall>j<1. link_ok crypto_toy ([cert_leaf, cert_inter, anchor_spoof] ! j)
                 ([cert_leaf, cert_inter, anchor_spoof] ! Suc j)"
    using link_leaf_inter by simp_all
  from linkage_pass_short_circuit [OF len(1) pre(1) chain_other_root_structural, of "[]" True]
    names_inter_other_root
  have a: "linkage_loop crypto_toy 0 [cert_leaf, cert_inter, cert_other_root]
        [''Cert 0: Basic constraints extension not found'',
         ''Cert 0: Key usage extension not found'',
         ''Cert 1: Certificate is a CA certificate'',
         ''Cert 1: Path length constraint: 0'', ''Cert 1: Key usage valid'',
         ''Cert 2: Certificate is a CA certificate'', ''Cert 2: Key usage valid''] []
       = ([0],
          Inl (invalid_result
            [''Cert 0: Basic constraints extension not found'',
             ''Cert 0: Key usage extension not found'',
             ''Cert 1: Certificate is a CA certificate'',
             ''Cert 1: Path length constraint: 0'', ''Cert 1: Key usage valid'',
             ''Cert 2: Certificate is a CA certificate'', ''Cert 2: Key usage valid'',
             ''Cert 0: Signature valid'',
             ''Cert 1: Issuer does not match next cert in chain'']))"
    by (simp add: signature_valid_messages_0_1 cert_prefix_1)
  from linkage_pass_short_circuit [OF len(2) pre(2) chain_spoof_structural, of "[]" True]
    names_inter_spoof bad_signature_inter_spoof
  have b: "validate_chain crypto_toy [] [cert_leaf, cert_inter, anchor_spoof] True
       = invalid_result
            [''Cert 0: Basic constraints extension not found'',
             ''Cert 0: Key usage extension not found'',
             ''Cert 1: Certificate is a CA certificate'',
             ''Cert 1: Path length constraint: 0'', ''Cert 1: Key usage valid'',
             ''Cert 2: Certificate is a CA certificate'', ''Cert 2: Key usage valid'',
             ''Cert 0: Signature valid'',
             ''Cert 1: Invalid signature from issuer'']"
    by (simp add: signature_valid_messages_0_1 cert_prefix_1)
  have len0: "Suc 0 < length [cert_leaf, cert_inter, cert_other_root]" by simp
  have pre0: "\<forall>j<0. link_ok crypto_toy ([cert_leaf, cert_inter, cert_other_root] ! j)
                 ([cert_leaf, cert_inter, cert_other_root] ! Suc j)" by simp
  from linkage_pass_short_circuit [OF len0 pre0 chain_other_root_structural, of "[]" True]
    link_leaf_inter
  have c: "linkage_loop crypto_toy 0 [cert_leaf, cert_inter, cert_other_root]
        [''Cert 0: Basic constraints extension not found'',
         ''Cert 0: Key usage extension not found'',
         ''Cert 1: Certificate is a CA certificate'',
         ''Cert 1: Path length constraint: 0'', ''Cert 1: Key usage valid'',
         ''Cert 2: Certificate is a CA certificate'', ''Cert 2: Key usage valid''] []
       = linkage_loop crypto_toy 1 [cert_inter, cert_other_root]
        [''Cert 0: Basic constraints extension not found'',
         ''Cert 0: Key usage extension not found'',
         ''Cert 1: Certificate is a CA certificate'',
         ''Cert 1: Path length constraint: 0'', ''Cert 1: Key usage valid'',
         ''Cert 2: Certificate is a CA certificate'', ''Cert 2: Key usage valid'',
         ''Cert 0: Signature valid''] [0]"
    by (simp add: link_ok_def signature_valid_messages_def cert_prefix_0)
  from a b c link_leaf_inter names_inter_other_root names_inter_spoof
    bad_signature_inter_spoof
  show ?thesis by blast
qed

section \<open>Properties of the structural pass\<close>

lemma linkage_loop_extends:
  "snd (linkage_loop cr i cs m calls) = Inr m2 \<Longrightarrow> \<exists>ext. m2 = m @ ext"
  by (induction cr i cs m calls rule: linkage_loop.induct) (auto split: if_splits)

lemma truststore_loop_found:
  "fst (truststore_loop cr root_cert ts m) \<Longrightarrow>
   snd (truststore_loop cr root_cert ts m) = m @ [''Root certificate found in truststore'']"
  by (induction ts) (auto split: if_splits)

lemma validate_chain_no_fatal:
  assumes "chain \<noteq> []" "\<forall>c\<in>set chain. \<not> ku_fatal c"
    and "snd (linkage_loop cr 0 chain (trail 0 chain) []) = Inr m2"
    and "u \<and> ts \<noteq> [] \<longrightarrow> fst (truststore_loop cr (last chain) ts m2)"
  shows "v_status (validate_chain cr ts chain u) = V_VALID
         \<and> is_valid (validate_chain cr ts chain u)
         \<and> set (trail 0 chain) \<subseteq> set (messages (validate_chain cr ts chain u))"
proof -
  have s: "structural_loop 0 chain [] = Inr (trail 0 chain)"
    using structural_loop_all_ok [OF assms(2), of 0 "[]"] by simp
  obtain ext where ext: "m2 = trail 0 chain @ ext"
    using linkage_loop_extends [OF assms(3)] by blast
  show ?thesis
  proof (cases "u \<and> ts \<noteq> []")
    case True
    with assms(4) have f: "fst (truststore_loop cr (last chain) ts m2)" by blast
    from truststore_loop_found [OF f] f
    have "truststore_loop cr (last chain) ts m2
            = (True, m2 @ [''Root certificate found in truststore''])"
      by (cases "truststore_loop cr (last chain) ts m2") simp
    with True assms(1,3) s ext show ?thesis
      by (auto simp: validate_chain_def result_shapes)
  next
    case False
    with assms(1,3) s ext show ?thesis
      by (auto simp: validate_chain_def result_shapes)
  qed
qed

lemma validate_chain_first_fatal:
  assumes "k < length chain" "\<forall>c\<in>set (take k chain). \<not> ku_fatal c" "ku_fatal (chain ! k)"
  shows "validate_chain cr ts chain u =
           invalid_result (trail 0 (take k chain)
             @ map (cert_prefix k) (messages (check_basic_constraints (chain ! k)))
             @ [cert_prefix k ''CA certificate missing key_cert_sign usage''])"
proof -
  from assms(1) have ne: "chain \<noteq> []" by auto
  have "structural_loop 0 chain [] = Inl (invalid_result (trail 0 (take (Suc k) chain)))"
    using structural_loop_first_fatal [OF assms, of 0 "[]"] by simp
  with ne show ?thesis
    by (simp add: validate_chain_def trail_take_Suc [OF assms(1)] cert_messages_fatal [OF assms(3)])
qed

lemma missing_key_usage:
  "key_usage cert = None \<Longrightarrow>
   check_key_usage cert =
     \<lparr> v_status = V_WARNING, messages = [''Key usage extension not found''], is_valid = True \<rparr>
   \<and> \<not> ku_fatal cert"
  by (simp add: check_key_usage_def ku_fatal_def split: option.splits)

lemma missing_basic_constraints:
  "basic_constraints cert = None \<Longrightarrow>
   check_basic_constraints cert =
     \<lparr> v_status = V_WARNING, messages = [''Basic constraints extension not found''],
       is_valid = True \<rparr>
   \<and> \<not> ku_fatal cert"
  by (simp add: check_basic_constraints_def ku_fatal_def)

text \<open>
  C5. In the first loop of \<open>validate_chain\<close>, in index order: at the first
  certificate that basic constraints mark as a CA and whose key usage extension is
  present without \<open>key_cert_sign\<close>, the result is \<open>INVALID\<close> and the trail is
  the messages of the certificates before it, then its own, the failure message
  last. That condition is the only one under which \<open>check_key_usage\<close> is not valid.
  A certificate without key usage extension, or without basic constraints, gets a
  result of status \<open>WARNING\<close> with \<open>is_valid\<close> true; its messages are appended and
  the loop goes on. When no certificate fails so, the loop ends with the messages
  of all certificates, and when the later passes succeed the result is \<open>VALID\<close> and
  its trail contains those messages, warnings included.
\<close>

theorem structural_pass_key_usage:
  "(\<forall>k. k < length chain \<and> (\<forall>c\<in>set (take k chain). \<not> ku_fatal c) \<and> ku_fatal (chain ! k) \<longrightarrow>
      validate_chain cr ts chain u =
        invalid_result (trail 0 (take k chain)
          @ map (cert_prefix k) (messages (check_basic_constraints (chain ! k)))
          @ [cert_prefix k ''CA certificate missing key_cert_sign usage'']))
   \<and> ku_fatal cert = (v_status (check_key_usage cert) = V_INVALID)
   \<and> ku_fatal cert = (\<not> is_valid (check_key_usage cert))
   \<and> (key_usage cert = None \<longrightarrow>
        check_key_usage cert =
          \<lparr> v_status = V_WARNING, messages = [''Key usage extension not found''],
            is_valid = True \<rparr>
        \<and> \<not> ku_fatal cert)
   \<and> (basic_constraints cert = None \<longrightarrow>
        check_basic_constraints cert =
          \<lparr> v_status = V_WARNING, messages = [''Basic constraints extension not found''],
            is_valid = True \<rparr>
        \<and> \<not> ku_fatal cert)
   \<and> (\<not> ku_fatal cert \<longrightarrow>
        structural_loop i (cert # rest) msgs
          = structural_loop (Suc i) rest (msgs @ cert_messages i cert))
   \<and> (chain \<noteq> [] \<and> (\<forall>c\<in>set chain. \<not> ku_fatal c) \<longrightarrow>
        structural_loop 0 chain [] = Inr (trail 0 chain)
        \<and> (\<forall>m2. snd (linkage_loop cr 0 chain (trail 0 chain) []) = Inr m2
               \<and> (u \<and> ts \<noteq> [] \<longrightarrow> fst (truststore_loop cr (last chain) ts m2))
             \<longrightarrow> v_status (validate_chain cr ts chain u) = V_VALID
                 \<and> is_valid (validate_chain cr ts chain u)
                 \<and> set (trail 0 chain) \<subseteq> set (messages (validate_chain cr ts chain u))))"
proof -
  have a: "\<forall>k. k < length chain \<and> (\<forall>c\<in>set (take k chain). \<not> ku_fatal c) \<and> ku_fatal (chain ! k) \<longrightarrow>
      validate_chain cr ts chain u =
        invalid_result (trail 0 (take k chain)
          @ map (cert_prefix k) (messages (check_basic_constraints (chain ! k)))
          @ [cert_prefix k ''CA certificate missing key_cert_sign usage''])"
    using validate_chain_first_fatal by blast
  have b: "ku_fatal cert = (v_status (check_key_usage cert) = V_INVALID)"
    by (auto simp: check_key_usage_def ku_fatal_def split: option.splits)
  have c: "ku_fatal cert = (\<not> is_valid (check_key_usage cert))"
    by (simp add: check_key_usage_is_valid)
  have d: "\<not> ku_fatal cert \<longrightarrow>
        structural_loop i (cert # rest) msgs
          = structural_loop (Suc i) rest (msgs @ cert_messages i cert)"
    using structural_loop_step by blast
  have e: "chain \<noteq> [] \<and> (\<forall>c\<in>set chain. \<not> ku_fatal c) \<longrightarrow>
        structural_loop 0 chain [] = Inr (trail 0 chain)
        \<and> (\<forall>m2. snd (linkage_loop cr 0 chain (trail 0 chain) []) = Inr m2
               \<and> (u \<and> ts \<noteq> [] \<longrightarrow> fst (truststore_loop cr (last chain) ts m2))
             \<longrightarrow> v_status (validate_chain cr ts chain u) = V_VALID
                 \<and> is_valid (validate_chain cr ts chain u)
                 \<and> set (trail 0 chain) \<subseteq> set (messages (validate_chain cr ts chain u)))"
  proof (intro impI conjI allI)
    assume h: "chain \<noteq> [] \<and> (\<forall>c\<in>set chain. \<not> ku_fatal c)"
    then show "structural_loop 0 chain [] = Inr (trail 0 chain)"
      using structural_loop_all_ok [of chain 0 "[]"] by simp
    fix m2
    assume "snd (linkage_loop cr 0 chain (trail 0 chain) []) = Inr m2
               \<and> (u \<and> ts \<noteq> [] \<longrightarrow> fst (truststore_loop cr (last chain) ts m2))"
    with h validate_chain_no_fatal [of chain cr m2 u ts]
    show "v_status (validate_chain cr ts chain u) = V_VALID"
      "is_valid (validate_chain cr ts chain u)"
      "set (trail 0 chain) \<subseteq> set (messages (validate_chain cr ts chain u))"
      by blast+
  qed
  from a b c d e missing_key_usage [of cert] missing_basic_constraints [of cert]
  show ?thesis by blast
qed

lemma leaf_not_fatal: "\<not> ku_fatal cert_leaf" by code_simp
lemma inter_not_fatal: "\<not> ku_fatal cert_inter" by code_simp
lemma root_not_fatal: "\<not> ku_fatal cert_root" by code_simp
lemma bad_ca_fatal: "ku_fatal cert_bad_ca" by code_simp
lemma leaf_no_extensions: "key_usage cert_leaf = None" "basic_constraints cert_leaf = None"
  by code_simp+

lemma chain_bad_trail:
  "trail 0 (take 1 [cert_leaf, cert_bad_ca])
     @ map (cert_prefix 1) (messages (check_basic_constraints ([cert_leaf, cert_bad_ca] ! 1)))
     @ [cert_prefix 1 ''CA certificate missing key_cert_sign usage'']
   = [''Cert 0: Basic constraints extension not found'',
      ''Cert 0: Key usage extension not found'',
      ''Cert 1: Certificate is a CA certificate'',
      ''Cert 1: CA certificate missing key_cert_sign usage'']"
  by code_simp

lemma chain_ok_trail:
  "trail 0 [cert_leaf, cert_inter, cert_root] =
     [''Cert 0: Basic constraints extension not found'',
      ''Cert 0: Key usage extension not found'',
      ''Cert 1: Certificate is a CA certificate'',
      ''Cert 1: Path length constraint: 0'', ''Cert 1: Key usage valid'',
      ''Cert 2: Certificate is a CA certificate'', ''Cert 2: Key usage valid'']"
  by code_simp

lemma chain_ok_linkage:
  "snd (linkage_loop crypto_toy 0 [cert_leaf, cert_inter, cert_root]
          (trail 0 [cert_leaf, cert_inter, cert_root]) [])
     = Inr [''Cert 0: Basic constraints extension not found'',
      ''Cert 0: Key usage extension not found'',
      ''Cert 1: Certificate is a CA certificate'',
      ''Cert 1: Path length constraint: 0'', ''Cert 1: Key usage valid'',
      ''Cert 2: Certificate is a CA certificate'', ''Cert 2: Key usage valid'',
      ''Cert 0: Signature valid'', ''Cert 1: Signature valid'']"
  by code_simp

lemma chain_ok_anchor:
  "fst (truststore_loop crypto_toy (last [cert_leaf, cert_inter, cert_root]) [cert_root]
     [''Cert 0: Basic constraints extension not found'',
      ''Cert 0: Key usage extension not found'',
      ''Cert 1: Certificate is a CA certificate'',
      ''Cert 1: Path length constraint: 0'', ''Cert 1: Key usage valid'',
      ''Cert 2: Certificate is a CA certificate'', ''Cert 2: Key usage valid'',
      ''Cert 0: Signature valid'', ''Cert 1: Signature valid''])"
  by code_simp

lemma leaf_messages:
  "cert_messages 0 cert_leaf =
     [''Cert 0: Basic constraints extension not found'',
      ''Cert 0: Key usage extension not found'']"
  by code_simp

text \<open>
  A leaf without extensions followed by a CA certificate whose key usage lacks
  \<open>key_cert_sign\<close> is \<open>INVALID\<close>, the two warnings of the leaf kept in the trail; the
  chain of leaf, intermediate and root is \<open>VALID\<close> against the root as anchor, the
  warnings of the leaf in its trail.
\<close>

theorem structural_pass_key_usage_witness:
  "\<not> ku_fatal cert_leaf \<and> ku_fatal cert_bad_ca
   \<and> validate_chain crypto_toy [] [cert_leaf, cert_bad_ca] True =
       invalid_result
         [''Cert 0: Basic constraints extension not found'',
          ''Cert 0: Key usage extension not found'',
          ''Cert 1: Certificate is a CA certificate'',
          ''Cert 1: CA certificate missing key_cert_sign usage'']
   \<and> key_usage cert_leaf = None
   \<and> check_key_usage cert_leaf =
       \<lparr> v_status = V_WARNING, messages = [''Key usage extension not found''],
         is_valid = True \<rparr>
   \<and> basic_constraints cert_leaf = None
   \<and> check_basic_constraints cert_leaf =
       \<lparr> v_status = V_WARNING, messages = [''Basic constraints extension not found''],
         is_valid = True \<rparr>
   \<and> structural_loop 0 [cert_leaf, cert_inter] [] =
       structural_loop 1 [cert_inter]
         [''Cert 0: Basic constraints extension not found'',
          ''Cert 0: Key usage extension not found'']
   \<and> v_status (validate_chain crypto_toy [cert_root] [cert_leaf, cert_inter, cert_root] True)
       = V_VALID
   \<and> ''Cert 0: Key usage extension not found''
       \<in> set (messages
             (validate_chain crypto_toy [cert_root] [cert_leaf, cert_inter, cert_root] True))"
proof -
  have bad: "1 < length [cert_leaf, cert_bad_ca]
      \<and> (\<forall>c\<in>set (take 1 [cert_leaf, cert_bad_ca]). \<not> ku_fatal c)
      \<and> ku_fatal ([cert_leaf, cert_bad_ca] ! 1)"
    using leaf_not_fatal bad_ca_fatal by simp
  have ok: "[cert_leaf, cert_inter, cert_root] \<noteq> []
      \<and> (\<forall>c\<in>set [cert_leaf, cert_inter, cert_root]. \<not> ku_fatal c)"
    using leaf_not_fatal inter_not_fatal root_not_fatal by simp
  note t1 = structural_pass_key_usage
    [of "[cert_leaf, cert_bad_ca]" crypto_toy "[]" True cert_leaf 0 "[cert_inter]" "[]"]
  note t2 = structural_pass_key_usage
    [of "[cert_leaf, cert_inter, cert_root]" crypto_toy "[cert_root]" True cert_leaf 0 "[]" "[]"]
  from t1 bad have a: "validate_chain crypto_toy [] [cert_leaf, cert_bad_ca] True =
       invalid_result
         [''Cert 0: Basic constraints extension not found'',
          ''Cert 0: Key usage extension not found'',
          ''Cert 1: Certificate is a CA certificate'',
          ''Cert 1: CA certificate missing key_cert_sign usage'']"
    unfolding chain_bad_trail [symmetric] by blast
  from t1 leaf_no_extensions have b: "check_key_usage cert_leaf =
       \<lparr> v_status = V_WARNING, messages = [''Key usage extension not found''],
         is_valid = True \<rparr>"
    "check_basic_constraints cert_leaf =
       \<lparr> v_status = V_WARNING, messages = [''Basic constraints extension not found''],
         is_valid = True \<rparr>"
    by blast+
  from t1 leaf_not_fatal have "structural_loop 0 [cert_leaf, cert_inter] [] =
       structural_loop (Suc 0) [cert_inter] ([] @ cert_messages 0 cert_leaf)"
    by blast
  then have c: "structural_loop 0 [cert_leaf, cert_inter] [] =
       structural_loop 1 [cert_inter]
         [''Cert 0: Basic constraints extension not found'',
          ''Cert 0: Key usage extension not found'']"
    by (simp only: leaf_messages append_Nil One_nat_def)
  from t2 ok chain_ok_linkage chain_ok_anchor
  have d: "v_status (validate_chain crypto_toy [cert_root] [cert_leaf, cert_inter, cert_root] True)
       = V_VALID
     \<and> set (trail 0 [cert_leaf, cert_inter, cert_root])
        \<subseteq> set (messages
             (validate_chain crypto_toy [cert_root] [cert_leaf, cert_inter, cert_root] True))"
    by blast
  then have e: "''Cert 0: Key usage extension not found''
       \<in> set (messages
             (validate_chain crypto_toy [cert_root] [cert_leaf, cert_inter, cert_root] True))"
    unfolding chain_ok_trail by auto
  from a b c d e leaf_not_fatal bad_ca_fatal leaf_no_extensions show ?thesis by blast
qed

section \<open>Properties of the trust-anchor pass\<close>

lemma verify_signature_issuer_field:
  "verify_signature cr (c\<lparr>issuer := x\<rparr>) a = verify_signature cr c a"
  "verify_signature cr c (a\<lparr>issuer := x\<rparr>) = verify_signature cr c a"
  by (simp_all add: verify_signature_def verify_signature_try_def
        split: sum.splits public_key.splits)

lemma structural_checks_issuer_field:
  "check_key_usage (c\<lparr>issuer := x\<rparr>) = check_key_usage c"
  "check_basic_constraints (c\<lparr>issuer := x\<rparr>) = check_basic_constraints c"
  by (simp_all add: check_key_usage_def check_basic_constraints_def split: option.splits)

lemma structural_loop_last_issuer:
  "structural_loop i (cs @ [r\<lparr>issuer := x\<rparr>]) m = structural_loop i (cs @ [r]) m"
  by (induction cs arbitrary: i m) (simp_all add: structural_checks_issuer_field Let_def)

lemma linkage_loop_last_issuer:
  "linkage_loop cr i (cs @ [r\<lparr>issuer := x\<rparr>]) m calls = linkage_loop cr i (cs @ [r]) m calls"
proof (induction cs arbitrary: i m calls)
  case Nil
  show ?case by simp
next
  case (Cons c cs)
  show ?case
  proof (cases cs)
    case Nil
    then show ?thesis by (simp add: verify_signature_issuer_field)
  next
    case (Cons d ds)
    with Cons.IH show ?thesis by simp
  qed
qed

lemma truststore_loop_root_issuer:
  "truststore_loop cr (r\<lparr>issuer := x\<rparr>) ts m = truststore_loop cr r ts m"
  by (induction ts) (simp_all add: verify_signature_issuer_field)

lemma validate_chain_last_issuer:
  "validate_chain cr ts (cs @ [r\<lparr>issuer := x\<rparr>]) u = validate_chain cr ts (cs @ [r]) u"
  by (simp add: validate_chain_def structural_loop_last_issuer linkage_loop_last_issuer
        truststore_loop_root_issuer split: sum.splits)

lemma find_None_iff_Ball: "(find P xs = None) = (\<forall>x\<in>set xs. \<not> P x)"
  by (induction xs) auto

text \<open>
  C2. For a non-empty chain whose first and second loops have ended without a
  failure, a non-empty trust store and \<open>use_truststore\<close> true: \<open>validate_chain\<close> looks
  at the last element of the chain. If some anchor of the trust store has the subject
  of that element and its key verifies the element's signature (the first such
  anchor in the order of the store ends the search), the result is \<open>VALID\<close>, with
  "Root certificate found in truststore" appended; an anchor with the same subject
  whose key does not verify is passed over. If no anchor does both, the result is
  \<open>INVALID\<close> with "Root certificate not found in truststore" appended. The issuer
  of the last element is never read: replacing it changes no result, so the last
  element need not be self-signed.
\<close>

theorem truststore_pass:
  assumes "chain \<noteq> []"
    and "structural_loop 0 chain [] = Inr m1"
    and "snd (linkage_loop cr 0 chain m1 []) = Inr m2"
    and "ts \<noteq> []"
  shows "validate_chain cr ts chain True =
           (case find (\<lambda>a. subject (last chain) = subject a
                            \<and> verify_signature cr (last chain) a) ts of
              Some a \<Rightarrow> valid_result (m2 @ [''Root certificate found in truststore''])
            | None \<Rightarrow> invalid_result (m2 @ [''Root certificate not found in truststore'']))
         \<and> (v_status (validate_chain cr ts chain True) = V_VALID)
             = (\<exists>a\<in>set ts. subject (last chain) = subject a
                             \<and> verify_signature cr (last chain) a)
         \<and> ((\<forall>a\<in>set ts. subject (last chain) = subject a
                           \<longrightarrow> \<not> verify_signature cr (last chain) a)
              \<longrightarrow> validate_chain cr ts chain True
                    = invalid_result (m2 @ [''Root certificate not found in truststore'']))
         \<and> validate_chain cr ts (cs @ [r\<lparr>issuer := x\<rparr>]) u
             = validate_chain cr ts (cs @ [r]) u"
proof -
  let ?P = "\<lambda>a. subject (last chain) = subject a \<and> verify_signature cr (last chain) a"
  have v: "validate_chain cr ts chain True =
           (case find ?P ts of
              Some a \<Rightarrow> valid_result (m2 @ [''Root certificate found in truststore''])
            | None \<Rightarrow> invalid_result (m2 @ [''Root certificate not found in truststore'']))"
    using assms
    by (simp add: validate_chain_def truststore_loop_find split: option.splits)
  have s: "(v_status (validate_chain cr ts chain True) = V_VALID) = (\<exists>a\<in>set ts. ?P a)"
  proof (cases "find ?P ts")
    case None
    with v find_None_iff_Ball [of ?P ts] show ?thesis by (auto simp: result_shapes)
  next
    case (Some a)
    then have "find ?P ts \<noteq> None" by simp
    with find_None_iff_Ball [of ?P ts] have "\<exists>a\<in>set ts. ?P a" by blast
    with v Some show ?thesis by (simp add: result_shapes)
  qed
  have n: "validate_chain cr ts chain True
             = invalid_result (m2 @ [''Root certificate not found in truststore''])"
    if "\<forall>a\<in>set ts. subject (last chain) = subject a \<longrightarrow> \<not> verify_signature cr (last chain) a"
  proof -
    from that have "find ?P ts = None" using find_None_iff_Ball [of ?P ts] by blast
    with v show ?thesis by simp
  qed
  from v s n validate_chain_last_issuer show ?thesis by blast
qed

lemma chain_leaf_inter_structural:
  "structural_loop 0 [cert_leaf, cert_inter] [] = Inr
     [''Cert 0: Basic constraints extension not found'',
      ''Cert 0: Key usage extension not found'',
      ''Cert 1: Certificate is a CA certificate'',
      ''Cert 1: Path length constraint: 0'', ''Cert 1: Key usage valid'']"
  by code_simp

lemma chain_leaf_inter_linkage:
  "snd (linkage_loop crypto_toy 0 [cert_leaf, cert_inter]
     [''Cert 0: Basic constraints extension not found'',
      ''Cert 0: Key usage extension not found'',
      ''Cert 1: Certificate is a CA certificate'',
      ''Cert 1: Path length constraint: 0'', ''Cert 1: Key usage valid''] [])
   = Inr
     [''Cert 0: Basic constraints extension not found'',
      ''Cert 0: Key usage extension not found'',
      ''Cert 1: Certificate is a CA certificate'',
      ''Cert 1: Path length constraint: 0'', ''Cert 1: Key usage valid'',
      ''Cert 0: Signature valid'']"
  by code_simp

lemma find_anchor_inter:
  "find (\<lambda>a. subject (last [cert_leaf, cert_inter]) = subject a
              \<and> verify_signature crypto_toy (last [cert_leaf, cert_inter]) a)
     [anchor_inter_spoof, anchor_inter] = Some anchor_inter"
  by code_simp

lemma find_anchor_inter_spoof:
  "find (\<lambda>a. subject (last [cert_leaf, cert_inter]) = subject a
              \<and> verify_signature crypto_toy (last [cert_leaf, cert_inter]) a)
     [anchor_inter_spoof] = None"
  by code_simp

lemma spoof_name_matches:
  "subject cert_inter = subject anchor_inter_spoof"
  "\<not> verify_signature crypto_toy cert_inter anchor_inter_spoof"
  "issuer cert_inter \<noteq> subject cert_inter"
  by code_simp+

text \<open>
  The chain of leaf and intermediate, whose last element is not self-signed: against
  a store holding an anchor of the intermediate's name with an unrelated key and
  then an anchor of that name whose key signed the intermediate it is \<open>VALID\<close>;
  against the first anchor alone it is \<open>INVALID\<close>, the name match notwithstanding.
\<close>

theorem truststore_pass_witness:
  "structural_loop 0 [cert_leaf, cert_inter] [] = Inr
     [''Cert 0: Basic constraints extension not found'',
      ''Cert 0: Key usage extension not found'',
      ''Cert 1: Certificate is a CA certificate'',
      ''Cert 1: Path length constraint: 0'', ''Cert 1: Key usage valid'']
   \<and> issuer cert_inter \<noteq> subject cert_inter
   \<and> subject cert_inter = subject anchor_inter_spoof
   \<and> \<not> verify_signature crypto_toy cert_inter anchor_inter_spoof
   \<and> validate_chain crypto_toy [anchor_inter_spoof, anchor_inter] [cert_leaf, cert_inter] True
       = valid_result
           [''Cert 0: Basic constraints extension not found'',
            ''Cert 0: Key usage extension not found'',
            ''Cert 1: Certificate is a CA certificate'',
            ''Cert 1: Path length constraint: 0'', ''Cert 1: Key usage valid'',
            ''Cert 0: Signature valid'', ''Root certificate found in truststore'']
   \<and> validate_chain crypto_toy [anchor_inter_spoof] [cert_leaf, cert_inter] True
       = invalid_result
           [''Cert 0: Basic constraints extension not found'',
            ''Cert 0: Key usage extension not found'',
            ''Cert 1: Certificate is a CA certificate'',
            ''Cert 1: Path length constraint: 0'', ''Cert 1: Key usage valid'',
            ''Cert 0: Signature valid'', ''Root certificate not found in truststore'']"
proof -
  have ne: "[cert_leaf, cert_inter] \<noteq> []" "[anchor_inter_spoof, anchor_inter] \<noteq> []"
    "[anchor_inter_spoof] \<noteq> []" by simp_all
  from truststore_pass [OF ne(1) chain_leaf_inter_structural chain_leaf_inter_linkage ne(2)]
  have a: "validate_chain crypto_toy [anchor_inter_spoof, anchor_inter] [cert_leaf, cert_inter] True
       = valid_result
           [''Cert 0: Basic constraints extension not found'',
            ''Cert 0: Key usage extension not found'',
            ''Cert 1: Certificate is a CA certificate'',
            ''Cert 1: Path length constraint: 0'', ''Cert 1: Key usage valid'',
            ''Cert 0: Signature valid'', ''Root certificate found in truststore'']"
    unfolding find_anchor_inter by simp
  from truststore_pass [OF ne(1) chain_leaf_inter_structural chain_leaf_inter_linkage ne(3)]
  have b: "validate_chain crypto_toy [anchor_inter_spoof] [cert_leaf, cert_inter] True
       = invalid_result
           [''Cert 0: Basic constraints extension not found'',
            ''Cert 0: Key usage extension not found'',
            ''Cert 1: Certificate is a CA certificate'',
            ''Cert 1: Path length constraint: 0'', ''Cert 1: Key usage valid'',
            ''Cert 0: Signature valid'', ''Root certificate not found in truststore'']"
    unfolding find_anchor_inter_spoof by simp
  from a b chain_leaf_inter_structural spoof_name_matches show ?thesis by blast
qed

end
